theory Spec2Isabelle
  imports Complex_Main "HOL-Library.Sublist"
begin

section \<open>Python values shared by the scripts\<close>

text \<open>
  The scripts are Python. An exception is a value of \<open>py_error\<close> and a computation that may
  raise returns \<open>py_error + 'a\<close>, with \<open>Inl\<close> the raised exception. Python integers are
  \<open>int\<close>. Python floats are idealised as exact rationals (\<open>rat\<close>): the model computes what
  the arithmetic of the source denotes, without the rounding error of binary floating
  point.
\<close>

datatype py_error =
    KeyError string
  | ZeroDivisionError
  | FileNotFoundError
  | PermissionError
  | ParserError
  | ImportError
  | IndexError
  | ValueError
  | KeyboardInterrupt


definition and_then :: "py_error + 'a \<Rightarrow> ('a \<Rightarrow> py_error + 'b) \<Rightarrow> py_error + 'b" where
  "and_then m f = (case m of Inl e \<Rightarrow> Inl e | Inr x \<Rightarrow> f x)"

text \<open>\<open>d[k]\<close> on a dictionary raises \<open>KeyError\<close> for a missing key.\<close>

definition getitem :: "(string \<rightharpoonup> 'v) \<Rightarrow> string \<Rightarrow> py_error + 'v" where
  "getitem d k = (case d k of None \<Rightarrow> Inl (KeyError k) | Some v \<Rightarrow> Inr v)"

text \<open>\<open>x / y\<close> raises \<open>ZeroDivisionError\<close> for a zero divisor.\<close>

definition truediv :: "rat \<Rightarrow> rat \<Rightarrow> py_error + rat" where
  "truediv x y = (if y = 0 then Inl ZeroDivisionError else Inr (x / y))"

text \<open>\<open>round(x, ndigits)\<close> rounds to the nearest multiple of \<open>10 ^ -ndigits\<close>, a tie going to
  the even neighbour.\<close>

definition round_half_even :: "rat \<Rightarrow> int" where
  "round_half_even y =
     (let f = \<lfloor>y\<rfloor>; r = y - of_int f
      in if r < 1 / 2 then f
         else if 1 / 2 < r then f + 1
         else if even f then f else f + 1)"

definition py_round :: "rat \<Rightarrow> nat \<Rightarrow> rat" where
  "py_round x ndigits = of_int (round_half_even (x * 10 ^ ndigits)) / 10 ^ ndigits"

section \<open>prisma_study_methodology.py\<close>

record methodology =
  initial_records :: int
  title_abstract_excluded :: int
  full_text_excluded :: int
  final_included :: int
  after_title_abstract :: int
  full_text_assessed :: int
  title_abstract_exclusions :: "(string \<times> int) list"
  full_text_exclusions :: "(string \<times> int) list"
  databases :: "string list"

text \<open>\<open>PRISMAStudySelection.__init__\<close> of prisma_study_methodology.py. The two seeding calls
  set generators that no method of this class reads.\<close>

definition methodology_init :: "int \<Rightarrow> methodology" where
  "methodology_init random_seed =
     (let initial_records = 462;
          title_abstract_excluded = 60;
          full_text_excluded = 314;
          final_included = 88;
          after_title_abstract = initial_records - title_abstract_excluded
      in \<lparr> initial_records = initial_records,
           title_abstract_excluded = title_abstract_excluded,
           full_text_excluded = full_text_excluded,
           final_included = final_included,
           after_title_abstract = after_title_abstract,
           full_text_assessed = after_title_abstract,
           title_abstract_exclusions =
             [(''duplicate_methodologies'', 10),
              (''insufficient_deep_learning'', 10),
              (''preliminary_results'', 8),
              (''no_spatial_resolution'', 7),
              (''non_cardiac_focus'', 6),
              (''insufficient_methodology'', 6),
              (''small_sample_sizes'', 4),
              (''theoretical_only'', 4),
              (''other_reasons'', 5)],
           full_text_exclusions =
             [(''not_cardiomyocyte_focused'', 95),
              (''methodological_overlap_redundancy'', 85),
              (''insufficient_reproducibility'', 60),
              (''bulk_transcriptomics_only'', 45),
              (''no_spatial_integration'', 29)],
           databases =
             [''PubMed'', ''Web of Science'', ''Embase'', ''IEEE Xplore'',
              ''ACM Digital Library'', ''Scopus'', ''arXiv'', ''bioRxiv'', ''medRxiv''] \<rparr>)"

text \<open>The confusion matrix that \<open>calculate_cohens_kappa\<close> builds when it is called without
  one.\<close>

definition default_confusion_matrix :: "string \<rightharpoonup> int" where
  "default_confusion_matrix =
     (let both_include = 75;
          both_exclude = 370;
          r1_include_r2_exclude = 8;
          r1_exclude_r2_include = 9
      in [''include_include'' \<mapsto> both_include,
          ''include_exclude'' \<mapsto> r1_include_r2_exclude,
          ''exclude_include'' \<mapsto> r1_exclude_r2_include,
          ''exclude_exclude'' \<mapsto> both_exclude])"

text \<open>The Landis and Koch chain at the end of \<open>calculate_cohens_kappa\<close>.\<close>

definition interpretation_of :: "rat \<Rightarrow> string" where
  "interpretation_of kappa =
     (if kappa < 0 then ''Poor agreement''
      else if kappa < 20 / 100 then ''Slight agreement''
      else if kappa < 40 / 100 then ''Fair agreement''
      else if kappa < 60 / 100 then ''Moderate agreement''
      else if kappa < 80 / 100 then ''Substantial agreement''
      else ''Almost perfect agreement'')"

definition calculate_cohens_kappa ::
  "methodology \<Rightarrow> (string \<rightharpoonup> int) option \<Rightarrow> py_error + (rat \<times> string)" where
  "calculate_cohens_kappa self confusion_matrix_arg =
     (let confusion_matrix =
            (case confusion_matrix_arg of
               None \<Rightarrow> default_confusion_matrix
             | Some m \<Rightarrow> m)
      in and_then (getitem confusion_matrix ''include_include'') (\<lambda>a.
         and_then (getitem confusion_matrix ''include_exclude'') (\<lambda>b.
         and_then (getitem confusion_matrix ''exclude_include'') (\<lambda>c.
         and_then (getitem confusion_matrix ''exclude_exclude'') (\<lambda>d.
         let n = a + b + c + d
         in and_then (truediv (of_int (a + d)) (of_int n)) (\<lambda>po.
            and_then (truediv (of_int (a + b)) (of_int n)) (\<lambda>p1_include.
            and_then (truediv (of_int (c + d)) (of_int n)) (\<lambda>p1_exclude.
            and_then (truediv (of_int (a + c)) (of_int n)) (\<lambda>p2_include.
            and_then (truediv (of_int (b + d)) (of_int n)) (\<lambda>p2_exclude.
            let pe = (p1_include * p2_include) + (p1_exclude * p2_exclude)
            in and_then (if pe = 1 then Inr 1 else truediv (po - pe) (1 - pe)) (\<lambda>kappa.
               Inr (py_round kappa 3, interpretation_of kappa))))))))))))"

text \<open>A confusion matrix with the four cells of the claim.\<close>

definition matrix_of :: "int \<Rightarrow> int \<Rightarrow> int \<Rightarrow> int \<Rightarrow> (string \<rightharpoonup> int)" where
  "matrix_of a b c d =
     [''include_include'' \<mapsto> a, ''include_exclude'' \<mapsto> b,
      ''exclude_include'' \<mapsto> c, ''exclude_exclude'' \<mapsto> d]"

subsection \<open>Cohen's kappa as the textbook states it\<close>

definition textbook_po :: "int \<Rightarrow> int \<Rightarrow> int \<Rightarrow> int \<Rightarrow> rat" where
  "textbook_po a b c d = of_int (a + d) / of_int (a + b + c + d)"

definition textbook_pe :: "int \<Rightarrow> int \<Rightarrow> int \<Rightarrow> int \<Rightarrow> rat" where
  "textbook_pe a b c d =
     (of_int (a + b) / of_int (a + b + c + d)) * (of_int (a + c) / of_int (a + b + c + d))
     + (of_int (c + d) / of_int (a + b + c + d)) * (of_int (b + d) / of_int (a + b + c + d))"

definition textbook_kappa :: "int \<Rightarrow> int \<Rightarrow> int \<Rightarrow> int \<Rightarrow> rat" where
  "textbook_kappa a b c d =
     (if textbook_pe a b c d = 1 then 1
      else (textbook_po a b c d - textbook_pe a b c d) / (1 - textbook_pe a b c d))"


section \<open>Programs over the interpreter's generators\<close>

text \<open>
  The scripts draw random numbers from two generators that live in the interpreter, not in
  an object: the one of Python's \<open>random\<close> module and NumPy's legacy global one, which
  \<open>DataFrame.sample\<close> reads. Their states are the two fields of \<open>interp\<close>. A method that
  draws is a function from the interpreter state to a result, or a raised exception, and
  the state it leaves.
\<close>

record ('g, 'h) interp =
  py_state :: 'g
  np_state :: 'h

type_synonym ('s, 'a) prog = "'s \<Rightarrow> (py_error + 'a) \<times> 's"

definition ret :: "'a \<Rightarrow> ('s, 'a) prog" where
  "ret x s = (Inr x, s)"

definition raise :: "py_error \<Rightarrow> ('s, 'a) prog" where
  "raise e s = (Inl e, s)"

definition seq :: "('s, 'a) prog \<Rightarrow> ('a \<Rightarrow> ('s, 'b) prog) \<Rightarrow> ('s, 'b) prog" where
  "seq m f s = (case m s of (Inl e, s') \<Rightarrow> (Inl e, s') | (Inr x, s') \<Rightarrow> f x s')"

text \<open>A program returns when it raises in no state.\<close>

definition returns :: "('s, 'a) prog \<Rightarrow> bool" where
  "returns m \<longleftrightarrow> (\<forall>s. \<exists>x s'. m s = (Inr x, s'))"

text \<open>
  The generator algorithms (the Mersenne Twister and its seeding, in CPython and NumPy) and
  pandas' choice of the rows of a sample are no code of the repository. They are the
  parameter \<open>L\<close> of the model: what seeding leaves in each generator, the draws
  \<open>random.random()\<close> and \<open>random._randbelow(n)\<close> of Python's generator, and the index labels
  that \<open>df.sample(n)\<close> picks from the index of \<open>df\<close> with NumPy's generator.
\<close>

record ('g, 'h) library =
  py_seed :: "int \<Rightarrow> 'g"
  py_random :: "'g \<Rightarrow> rat \<times> 'g"
  py_randbelow :: "nat \<Rightarrow> 'g \<Rightarrow> nat \<times> 'g"
  np_seed :: "int \<Rightarrow> 'h"
  df_sample :: "nat \<Rightarrow> nat list \<Rightarrow> 'h \<Rightarrow> nat list \<times> 'h"

text \<open>The documented ranges: \<open>random()\<close> lies in \<open>[0, 1)\<close>, \<open>_randbelow(n)\<close> below \<open>n\<close>, and a
  sample of \<open>n\<close> rows without replacement has \<open>n\<close> distinct labels of the index.\<close>

definition random_ok :: "('g, 'h) library \<Rightarrow> bool" where
  "random_ok L \<longleftrightarrow> (\<forall>g. 0 \<le> fst (py_random L g) \<and> fst (py_random L g) < 1)"

definition randbelow_ok :: "('g, 'h) library \<Rightarrow> bool" where
  "randbelow_ok L \<longleftrightarrow> (\<forall>n g. 0 < n \<longrightarrow> fst (py_randbelow L n g) < n)"

definition sample_ok :: "('g, 'h) library \<Rightarrow> bool" where
  "sample_ok L \<longleftrightarrow>
     (\<forall>n idx h. n \<le> length idx \<and> distinct idx \<longrightarrow>
        length (fst (df_sample L n idx h)) = n
        \<and> distinct (fst (df_sample L n idx h))
        \<and> set (fst (df_sample L n idx h)) \<subseteq> set idx)"

subsection \<open>The functions of the random module that the scripts call\<close>

definition random_seed :: "('g, 'h) library \<Rightarrow> int \<Rightarrow> (('g, 'h) interp, unit) prog" where
  "random_seed L a G = (Inr (), G\<lparr>py_state := py_seed L a\<rparr>)"

definition np_random_seed :: "('g, 'h) library \<Rightarrow> int \<Rightarrow> (('g, 'h) interp, unit) prog" where
  "np_random_seed L a G = (Inr (), G\<lparr>np_state := np_seed L a\<rparr>)"

definition random_random :: "('g, 'h) library \<Rightarrow> (('g, 'h) interp, rat) prog" where
  "random_random L G =
     (case py_random L (py_state G) of (u, g') \<Rightarrow> (Inr u, G\<lparr>py_state := g'\<rparr>))"

definition randbelow :: "('g, 'h) library \<Rightarrow> nat \<Rightarrow> (('g, 'h) interp, nat) prog" where
  "randbelow L n G =
     (case py_randbelow L n (py_state G) of (r, g') \<Rightarrow> (Inr r, G\<lparr>py_state := g'\<rparr>))"

text \<open>\<open>seq[i]\<close> raises \<open>IndexError\<close> out of range.\<close>

definition item :: "'a list \<Rightarrow> nat \<Rightarrow> ('s, 'a) prog" where
  "item xs i = (if i < length xs then ret (xs ! i) else raise IndexError)"

text \<open>\<open>uniform(a, b)\<close> is \<open>a + (b - a) * random()\<close>.\<close>

definition uniform :: "('g, 'h) library \<Rightarrow> rat \<Rightarrow> rat \<Rightarrow> (('g, 'h) interp, rat) prog" where
  "uniform L a b = seq (random_random L) (\<lambda>u. ret (a + (b - a) * u))"

text \<open>\<open>randint(a, b)\<close> is \<open>a + _randbelow(b - a + 1)\<close>, and raises for an empty range.\<close>

definition randint :: "('g, 'h) library \<Rightarrow> int \<Rightarrow> int \<Rightarrow> (('g, 'h) interp, int) prog" where
  "randint L a b =
     (if b - a + 1 \<le> 0 then raise ValueError
      else seq (randbelow L (nat (b - a + 1))) (\<lambda>r. ret (a + int r)))"

text \<open>\<open>choice(seq)\<close> is \<open>seq[_randbelow(len(seq))]\<close>, and raises for an empty sequence.\<close>

definition choice :: "('g, 'h) library \<Rightarrow> 'a list \<Rightarrow> (('g, 'h) interp, 'a) prog" where
  "choice L xs =
     (if xs = [] then raise IndexError
      else seq (randbelow L (length xs)) (\<lambda>i. item xs i))"

text \<open>\<open>itertools.accumulate\<close> and \<open>bisect.bisect\<close> (the right bisection of \<open>a[lo:hi]\<close>).\<close>

fun accumulate_from :: "rat \<Rightarrow> rat list \<Rightarrow> rat list" where
  "accumulate_from acc [] = []"
| "accumulate_from acc (w # ws) = (acc + w) # accumulate_from (acc + w) ws"

definition accumulate :: "rat list \<Rightarrow> rat list" where
  "accumulate ws = accumulate_from 0 ws"

function bisect :: "rat list \<Rightarrow> rat \<Rightarrow> nat \<Rightarrow> nat \<Rightarrow> nat" where
  "bisect a x lo hi =
     (if lo < hi
      then (let mid = (lo + hi) div 2
            in if x < a ! mid then bisect a x lo mid else bisect a x (mid + 1) hi)
      else lo)"
  by pat_completeness auto
termination
  by (relation "measure (\<lambda>(a, x, lo, hi). hi - lo)") auto

declare bisect.simps [simp del]

text \<open>\<open>choices(population, weights)[0]\<close>: one draw, scaled by the total weight and located
  among the cumulative weights; \<open>hi = len(population) - 1\<close> keeps the index in range.\<close>

definition choices ::
  "('g, 'h) library \<Rightarrow> 'a list \<Rightarrow> rat list \<Rightarrow> (('g, 'h) interp, 'a) prog" where
  "choices L population weights =
     (if length weights \<noteq> length population then raise ValueError
      else if population = [] then raise IndexError
      else (let cum_weights = accumulate weights;
                total = last cum_weights
            in if total \<le> 0 then raise ValueError
               else seq (random_random L) (\<lambda>u.
                    item population
                      (bisect cum_weights (u * total) 0 (length population - 1)))))"

subsection \<open>A small library for the examples\<close>

text \<open>Both generators are counters: seeding sets the counter to the absolute value of the
  seed, a draw reads the counter and increments it, and a sample takes the first \<open>n\<close>
  labels of the index rotated by the counter.\<close>

definition counting_library :: "(nat, nat) library" where
  "counting_library =
     \<lparr> py_seed = (\<lambda>a. nat \<bar>a\<bar>),
       py_random = (\<lambda>g. (of_nat (g mod 10) / 10, Suc g)),
       py_randbelow = (\<lambda>n g. (g mod n, Suc g)),
       np_seed = (\<lambda>a. nat \<bar>a\<bar>),
       df_sample = (\<lambda>n idx h. (take n (rotate h idx), Suc h)) \<rparr>"

section \<open>prisma_study_selection.py\<close>

subsection \<open>Formatting integers\<close>

definition digit :: "nat \<Rightarrow> char" where
  "digit n = ''0123456789'' ! (n mod 10)"

fun str_nat :: "nat \<Rightarrow> string" where
  "str_nat n = (if n < 10 then [digit n] else str_nat (n div 10) @ [digit n])"

declare str_nat.simps [simp del]

text \<open>\<open>str(k)\<close> and the format \<open>{k:04d}\<close> of an integer.\<close>

definition str_int :: "int \<Rightarrow> string" where
  "str_int k = (if k < 0 then CHR ''-'' # str_nat (nat (- k)) else str_nat (nat k))"

definition format_04d :: "int \<Rightarrow> string" where
  "format_04d k =
     (if k < 0 then CHR ''-'' # replicate (3 - length (str_nat (nat (- k)))) CHR ''0''
                     @ str_nat (nat (- k))
      else replicate (4 - length (str_nat (nat k))) CHR ''0'' @ str_nat (nat k))"

subsection \<open>Studies and data frames\<close>

record study =
  study_id :: string
  title :: string
  authors :: string
  year :: int
  journal :: string
  has_gnn :: bool
  has_rnn :: bool
  has_attention :: bool
  spatial_omics :: bool
  cardiac_focus :: bool
  full_text_available :: bool
  peer_reviewed :: bool
  language :: string
  publication_type :: string
  methodology_detail :: string
  sample_size :: int
  has_spatial_resolution :: bool
  has_empirical_data :: bool

text \<open>A data frame of studies is the list of its rows in order, each with its index label.
  \<open>pd.DataFrame(studies)\<close> labels the rows \<open>0, 1, 2, ...\<close>; a selection of rows keeps
  their labels.\<close>

type_synonym frame = "(nat \<times> study) list"

definition DataFrame :: "study list \<Rightarrow> frame" where
  "DataFrame studies = zip [0..<length studies] studies"

definition index :: "frame \<Rightarrow> nat list" where
  "index df = map fst df"

text \<open>\<open>df.drop(labels)\<close> removes the rows with these labels and raises \<open>KeyError\<close> for a label
  that is not in the index.\<close>

definition drop_labels :: "frame \<Rightarrow> nat list \<Rightarrow> ('s, frame) prog" where
  "drop_labels df labels =
     (if \<forall>l \<in> set labels. l \<in> set (index df)
      then ret (filter (\<lambda>row. fst row \<notin> set labels) df)
      else raise (KeyError ''not found in axis''))"

text \<open>\<open>df.sample(n=n).index\<close>: pandas raises \<open>ValueError\<close> for a negative \<open>n\<close> and for one larger
  than the frame, and otherwise lets NumPy's generator pick \<open>n\<close> labels.\<close>

definition sample_index ::
  "('g, 'h) library \<Rightarrow> frame \<Rightarrow> int \<Rightarrow> (('g, 'h) interp, nat list) prog" where
  "sample_index L df n G =
     (if n < 0 \<or> int (length df) < n then (Inl ValueError, G)
      else (case df_sample L (nat n) (index df) (np_state G) of
              (labels, h') \<Rightarrow> (Inr labels, G\<lparr>np_state := h'\<rparr>)))"

subsection \<open>The class PRISMAStudySelection\<close>

text \<open>The attributes of an instance that its methods read. (\<open>inclusion_criteria\<close> and
  \<open>exclusion_criteria\<close> are set by \<open>__init__\<close> and read by no method.)\<close>

record selection =
  initial_records :: int
  title_abstract_excluded :: int
  full_text_excluded :: int
  final_included :: int
  title_abstract_exclusions :: "(string \<times> int) list"
  studies_df :: frame

text \<open>One iteration of the loop of \<open>_generate_synthetic_studies\<close>: the dictionary of study
  \<open>i\<close>, its entries drawn in the order of the source.\<close>

definition flag ::
  "('g, 'h) library \<Rightarrow> bool \<Rightarrow> rat \<Rightarrow> rat \<Rightarrow> (('g, 'h) interp, bool) prog" where
  "flag L is_high_quality w1 w2 =
     (if \<not> is_high_quality then choice L [True, False]
      else choices L [True, False] [w1, w2])"

definition synthetic_study ::
  "('g, 'h) library \<Rightarrow> int \<Rightarrow> int \<Rightarrow> (('g, 'h) interp, study) prog" where
  "synthetic_study L target_qualified i =
     (let is_high_quality = (i < target_qualified) in
      seq (randint L 2019 2025) (\<lambda>year.
      seq (choice L [''Nature Biotechnology'', ''Cell'', ''Science'', ''Nature Methods'',
                     ''Bioinformatics'', ''Nature Communications'', ''PLOS ONE'']) (\<lambda>journal.
      seq (flag L is_high_quality (7 / 10) (3 / 10)) (\<lambda>has_gnn.
      seq (flag L is_high_quality (6 / 10) (4 / 10)) (\<lambda>has_rnn.
      seq (flag L is_high_quality (8 / 10) (2 / 10)) (\<lambda>has_attention.
      seq (flag L is_high_quality (9 / 10) (1 / 10)) (\<lambda>spatial_omics.
      seq (flag L is_high_quality (85 / 100) (15 / 100)) (\<lambda>cardiac_focus.
      seq (flag L is_high_quality (95 / 100) (5 / 100)) (\<lambda>full_text_available.
      seq (flag L is_high_quality (9 / 10) (1 / 10)) (\<lambda>peer_reviewed.
      seq (if \<not> is_high_quality then choice L [''English'', ''Non-English'']
           else choices L [''English'', ''Non-English''] [95 / 100, 5 / 100]) (\<lambda>language.
      seq (if \<not> is_high_quality
           then choice L [''research_article'', ''conference_abstract'', ''letter'', ''editorial'']
           else choices L [''research_article'', ''conference_abstract'', ''letter'', ''editorial'']
                  [8 / 10, 1 / 10, 5 / 100, 5 / 100]) (\<lambda>publication_type.
      seq (if \<not> is_high_quality then choice L [''sufficient'', ''insufficient'']
           else choices L [''sufficient'', ''insufficient''] [8 / 10, 2 / 10]) (\<lambda>methodology_detail.
      seq (randint L 10 1000) (\<lambda>sample_size.
      seq (flag L is_high_quality (9 / 10) (1 / 10)) (\<lambda>has_spatial_resolution.
      seq (flag L is_high_quality (85 / 100) (15 / 100)) (\<lambda>has_empirical_data.
      ret \<lparr> study_id = ''STUDY_'' @ format_04d (i + 1),
            title = ''Study on cardiac regeneration using AI methods - '' @ str_int (i + 1),
            authors = ''Author'' @ str_int (i + 1) @ '' et al.'',
            year = year,
            journal = journal,
            has_gnn = has_gnn,
            has_rnn = has_rnn,
            has_attention = has_attention,
            spatial_omics = spatial_omics,
            cardiac_focus = cardiac_focus,
            full_text_available = full_text_available,
            peer_reviewed = peer_reviewed,
            language = language,
            publication_type = publication_type,
            methodology_detail = methodology_detail,
            sample_size = sample_size,
            has_spatial_resolution = has_spatial_resolution,
            has_empirical_data = has_empirical_data \<rparr>))))))))))))))))"

fun synthetic_studies_loop ::
  "('g, 'h) library \<Rightarrow> int \<Rightarrow> nat list \<Rightarrow> study list \<Rightarrow> (('g, 'h) interp, study list) prog"
  where
  "synthetic_studies_loop L target_qualified [] studies = ret studies"
| "synthetic_studies_loop L target_qualified (i # rest) studies =
     seq (synthetic_study L target_qualified (int i)) (\<lambda>study.
       synthetic_studies_loop L target_qualified rest (studies @ [study]))"

text \<open>\<open>_generate_synthetic_studies\<close> reads \<open>final_included\<close> and \<open>initial_records\<close> of the
  instance.\<close>

definition generate_synthetic_studies ::
  "('g, 'h) library \<Rightarrow> int \<Rightarrow> int \<Rightarrow> (('g, 'h) interp, frame) prog" where
  "generate_synthetic_studies L final_included_of_self initial_records_of_self =
     (let target_qualified = final_included_of_self + 50
      in seq (synthetic_studies_loop L target_qualified
                [0..<nat initial_records_of_self] [])
           (\<lambda>studies. ret (DataFrame studies)))"

text \<open>The dictionary that \<open>__init__\<close> stores in \<open>self.title_abstract_exclusions\<close>.\<close>

definition selection_title_abstract_exclusions :: "(string \<times> int) list" where
  "selection_title_abstract_exclusions =
     [(''duplicate_methodologies'', 10),
      (''insufficient_deep_learning'', 10),
      (''preliminary_results'', 8),
      (''no_spatial_resolution'', 7),
      (''non_cardiac_focus'', 6),
      (''insufficient_methodology'', 6),
      (''small_sample_sizes'', 4),
      (''theoretical_only'', 4)]"

text \<open>\<open>__init__\<close>: both generators are seeded, the counters and the table of title and
  abstract exclusions are set, and the synthetic studies are drawn.\<close>

definition selection_init ::
  "('g, 'h) library \<Rightarrow> int \<Rightarrow> (('g, 'h) interp, selection) prog" where
  "selection_init L seed_arg =
     seq (random_seed L seed_arg) (\<lambda>_.
     seq (np_random_seed L seed_arg) (\<lambda>_.
     let initial_records = 462;
         title_abstract_excluded = 60;
         full_text_excluded = 314;
         final_included = 88;
         title_abstract_exclusions = selection_title_abstract_exclusions
     in seq (generate_synthetic_studies L final_included initial_records) (\<lambda>studies_df.
        ret \<lparr> initial_records = initial_records,
              title_abstract_excluded = title_abstract_excluded,
              full_text_excluded = full_text_excluded,
              final_included = final_included,
              title_abstract_exclusions = title_abstract_exclusions,
              studies_df = studies_df \<rparr>)))"

subsection \<open>Dictionaries that keep their insertion order\<close>

definition contains :: "('k \<times> 'v) list \<Rightarrow> 'k \<Rightarrow> bool" where
  "contains d k \<longleftrightarrow> k \<in> set (map fst d)"

definition setitem :: "('k \<times> 'v) list \<Rightarrow> 'k \<Rightarrow> 'v \<Rightarrow> ('k \<times> 'v) list" where
  "setitem d k v =
     (if contains d k then map (\<lambda>kv. if fst kv = k then (k, v) else kv) d
      else d @ [(k, v)])"

definition values_sum :: "('k \<times> int) list \<Rightarrow> int" where
  "values_sum d = sum_list (map snd d)"

text \<open>\<open>d[k] += n\<close> raises \<open>KeyError\<close> for a missing key.\<close>

definition add_to_item :: "(string \<times> int) list \<Rightarrow> string \<Rightarrow> int \<Rightarrow> ('s, (string \<times> int) list) prog"
  where
  "add_to_item d k n =
     (case map_of d k of
        None \<Rightarrow> raise (KeyError k)
      | Some v \<Rightarrow> ret (setitem d k (v + n)))"

subsection \<open>Screening\<close>

definition apply_inclusion_criteria :: "frame \<Rightarrow> frame" where
  "apply_inclusion_criteria df =
     (let deep_learning_mask = (\<lambda>s. has_gnn s \<or> has_rnn s \<or> has_attention s);
          spatial_omics_mask = (\<lambda>s. spatial_omics s);
          cardiac_focus_mask = (\<lambda>s. cardiac_focus s);
          publication_mask =
            (\<lambda>s. peer_reviewed s \<and> language s = ''English''
                 \<and> (2019 \<le> year s \<and> year s \<le> 2025) \<and> full_text_available s);
          inclusion_mask =
            (\<lambda>s. deep_learning_mask s \<and> spatial_omics_mask s \<and> cardiac_focus_mask s
                 \<and> publication_mask s)
      in filter (\<lambda>row. inclusion_mask (snd row)) df)"

text \<open>The chain of exclusion checks on one study; \<open>None\<close> when no check fires.\<close>

definition exclude_reason_of :: "study \<Rightarrow> string option" where
  "exclude_reason_of study =
     (if publication_type study \<in> set [''conference_abstract'', ''letter'', ''editorial'']
      then Some ''conference_abstracts_letters_editorials''
      else if \<not> has_spatial_resolution study then Some ''bulk_transcriptomics_only''
      else if \<not> (has_gnn study \<or> has_rnn study \<or> has_attention study)
      then Some ''insufficient_deep_learning''
      else if \<not> cardiac_focus study then Some ''non_cardiac_tissue''
      else if methodology_detail study = ''insufficient'' then Some ''insufficient_methodology''
      else if \<not> has_empirical_data study then Some ''theoretical_only''
      else if sample_size study < 50 then Some ''small_sample_sizes''
      else None)"

fun exclusion_loop ::
  "frame \<Rightarrow> (string \<times> int) list \<Rightarrow> nat list \<Rightarrow> ('s, (string \<times> int) list \<times> nat list) prog"
  where
  "exclusion_loop [] exclusion_reasons excluded_studies =
     ret (exclusion_reasons, excluded_studies)"
| "exclusion_loop ((idx, study) # rows) exclusion_reasons excluded_studies =
     (case exclude_reason_of study of
        None \<Rightarrow> exclusion_loop rows exclusion_reasons excluded_studies
      | Some exclude_reason \<Rightarrow>
          seq (add_to_item
                 (if \<not> contains exclusion_reasons exclude_reason
                  then setitem exclusion_reasons exclude_reason 0
                  else exclusion_reasons)
                 exclude_reason 1)
            (\<lambda>exclusion_reasons'.
               exclusion_loop rows exclusion_reasons' (excluded_studies @ [idx])))"

definition apply_exclusion_criteria :: "frame \<Rightarrow> ('s, frame \<times> (string \<times> int) list) prog" where
  "apply_exclusion_criteria df =
     seq (exclusion_loop df [] []) (\<lambda>(exclusion_reasons, excluded_studies).
     seq (drop_labels df excluded_studies) (\<lambda>included_df.
     ret (included_df, exclusion_reasons)))"

text \<open>The loop of \<open>title_abstract_screening\<close> over the reasons and their counts.\<close>

fun title_abstract_loop ::
  "('g, 'h) library \<Rightarrow> (string \<times> int) list \<Rightarrow> nat list \<Rightarrow> (string \<times> int) list \<Rightarrow> frame
     \<Rightarrow> (('g, 'h) interp, nat list \<times> (string \<times> int) list \<times> frame) prog" where
  "title_abstract_loop L [] excluded_indices exclusion_counts remaining_studies =
     ret (excluded_indices, exclusion_counts, remaining_studies)"
| "title_abstract_loop L ((reason, count) # items) excluded_indices exclusion_counts
       remaining_studies =
     (if int (length remaining_studies) \<ge> count
      then seq (sample_index L remaining_studies count) (\<lambda>to_exclude.
           seq (drop_labels remaining_studies to_exclude) (\<lambda>remaining_studies'.
             title_abstract_loop L items (excluded_indices @ to_exclude)
               (setitem exclusion_counts reason count) remaining_studies'))
      else title_abstract_loop L items excluded_indices exclusion_counts remaining_studies)"

definition title_abstract_screening ::
  "('g, 'h) library \<Rightarrow> selection
     \<Rightarrow> (('g, 'h) interp, frame \<times> (string \<times> int) list) prog" where
  "title_abstract_screening L self =
     (let eligible_after_inclusion = apply_inclusion_criteria (studies_df self)
      in seq (title_abstract_loop L (title_abstract_exclusions self) [] []
                eligible_after_inclusion)
           (\<lambda>(excluded_indices, exclusion_counts, remaining_studies).
      seq (drop_labels eligible_after_inclusion excluded_indices) (\<lambda>after_title_abstract.
      ret (after_title_abstract, exclusion_counts))))"

definition full_text_screening ::
  "('g, 'h) library \<Rightarrow> selection \<Rightarrow> frame
     \<Rightarrow> (('g, 'h) interp, frame \<times> (string \<times> int) list) prog" where
  "full_text_screening L self df =
     seq (apply_exclusion_criteria df) (\<lambda>(included_studies, exclusion_reasons).
     let target_final = final_included self;
         current_included = int (length included_studies)
     in if current_included > target_final
        then (let additional_to_exclude = current_included - target_final
              in seq (sample_index L included_studies additional_to_exclude)
                   (\<lambda>additional_excluded.
                 seq (drop_labels included_studies additional_excluded) (\<lambda>included_studies'.
                 seq (add_to_item
                        (if \<not> contains exclusion_reasons ''methodological_overlap''
                         then setitem exclusion_reasons ''methodological_overlap'' 0
                         else exclusion_reasons)
                        ''methodological_overlap'' additional_to_exclude)
                   (\<lambda>exclusion_reasons'.
                 ret (included_studies', exclusion_reasons')))))
        else ret (included_studies, exclusion_reasons))"

definition calculate_inter_rater_agreement ::
  "('g, 'h) library \<Rightarrow> selection \<Rightarrow> (('g, 'h) interp, rat) prog" where
  "calculate_inter_rater_agreement L self =
     seq (uniform L (75 / 100) (95 / 100)) (\<lambda>u. ret (py_round u 3))"

subsection \<open>The characteristics of the included studies\<close>

text \<open>\<open>Series.value_counts()\<close>: the values with their counts, the most frequent first; values
  of equal count are kept in the order of their first row.\<close>

definition value_counts :: "'a list \<Rightarrow> ('a \<times> int) list" where
  "value_counts xs =
     sort_key (\<lambda>vc. - snd vc)
       (map (\<lambda>v. (v, int (count_list xs v))) (rev (remdups (rev xs))))"

definition median :: "int list \<Rightarrow> rat" where
  "median xs =
     (let s = sort xs; n = length s
      in if even n then (of_int (s ! (n div 2 - 1)) + of_int (s ! (n div 2))) / 2
         else of_int (s ! (n div 2)))"

record characteristics =
  total_studies :: int
  year_distribution :: "(int \<times> int) list"
  journal_distribution :: "(string \<times> int) list"
  gnn_studies :: int
  rnn_studies :: int
  attention_studies :: int
  spatial_omics_studies :: int
  sample_size_mean :: rat
  sample_size_median :: rat
  sample_size_min :: int
  sample_size_max :: int

text \<open>\<open>_analyze_included_studies\<close>; \<open>None\<close> is the empty dictionary of the empty frame.\<close>

definition analyze_included_studies :: "frame \<Rightarrow> characteristics option" where
  "analyze_included_studies df =
     (if length df = 0 then None
      else (let rows = map snd df;
                year_dist = value_counts (map year rows);
                journal_dist = take 5 (value_counts (map journal rows));
                sizes = map sample_size rows
            in Some \<lparr> total_studies = int (length df),
                      year_distribution = year_dist,
                      journal_distribution = journal_dist,
                      gnn_studies = int (length (filter has_gnn rows)),
                      rnn_studies = int (length (filter has_rnn rows)),
                      attention_studies = int (length (filter has_attention rows)),
                      spatial_omics_studies = int (length (filter spatial_omics rows)),
                      sample_size_mean =
                        py_round (of_int (sum_list sizes) / of_int (int (length sizes))) 2,
                      sample_size_median = median sizes,
                      sample_size_min = Min (set sizes),
                      sample_size_max = Max (set sizes) \<rparr>))"

subsection \<open>The PRISMA flow\<close>

text \<open>The dictionary that \<open>generate_prisma_flow_data\<close> returns, one field for each leaf; the
  prefix of a field names the sub-dictionary it is in.\<close>

record prisma_data =
  identification_initial_records :: int
  identification_search_databases :: "string list"
  title_abstract_eligible_for_screening :: int
  title_abstract_excluded_count :: int
  title_abstract_exclusion_reasons :: "(string \<times> int) list"
  title_abstract_remaining :: int
  agreement_cohens_kappa :: rat
  agreement_interpretation :: string
  full_text_assessed :: int
  full_text_excluded_count :: int
  full_text_exclusion_reasons :: "(string \<times> int) list"
  full_text_included :: int
  inclusion_final_synthesis :: int
  inclusion_study_characteristics :: "characteristics option"

definition generate_prisma_flow_data ::
  "('g, 'h) library \<Rightarrow> selection \<Rightarrow> (('g, 'h) interp, prisma_data) prog" where
  "generate_prisma_flow_data L self =
     seq (title_abstract_screening L self) (\<lambda>(after_title_abstract, title_exclusions).
     seq (full_text_screening L self after_title_abstract)
       (\<lambda>(final_included, fulltext_exclusions).
     seq (calculate_inter_rater_agreement L self) (\<lambda>kappa.
     ret \<lparr> identification_initial_records = initial_records self,
           identification_search_databases =
             [''PubMed'', ''Web of Science'', ''Embase'', ''IEEE Xplore'',
              ''ACM Digital Library'', ''arXiv'', ''bioRxiv''],
           title_abstract_eligible_for_screening =
             int (length after_title_abstract) + values_sum title_exclusions,
           title_abstract_excluded_count = values_sum title_exclusions,
           title_abstract_exclusion_reasons = title_exclusions,
           title_abstract_remaining = int (length after_title_abstract),
           agreement_cohens_kappa = kappa,
           agreement_interpretation =
             (if kappa > 8 / 10 then ''Substantial agreement'' else ''Moderate agreement''),
           full_text_assessed = int (length after_title_abstract),
           full_text_excluded_count =
             int (length after_title_abstract) - int (length final_included),
           full_text_exclusion_reasons = fulltext_exclusions,
           full_text_included = int (length final_included),
           inclusion_final_synthesis = int (length final_included),
           inclusion_study_characteristics = analyze_included_studies final_included \<rparr>)))"

subsection \<open>A small instance for the examples\<close>

definition example_study :: "int \<Rightarrow> int \<Rightarrow> study" where
  "example_study i n =
     \<lparr> study_id = ''STUDY_'' @ format_04d i,
       title = ''Study on cardiac regeneration using AI methods - '' @ str_int i,
       authors = ''Author'' @ str_int i @ '' et al.'',
       year = 2021,
       journal = ''Cell'',
       has_gnn = True,
       has_rnn = False,
       has_attention = True,
       spatial_omics = True,
       cardiac_focus = True,
       full_text_available = True,
       peer_reviewed = True,
       language = ''English'',
       publication_type = ''research_article'',
       methodology_detail = ''sufficient'',
       sample_size = n,
       has_spatial_resolution = True,
       has_empirical_data = True \<rparr>"

text \<open>An instance with four studies, the last with a sample too small for the full-text
  screening, one exclusion at title and abstract screening and a target of one included
  study.\<close>

definition example_selection :: selection where
  "example_selection =
     \<lparr> initial_records = 4,
       title_abstract_excluded = 1,
       full_text_excluded = 2,
       final_included = 1,
       title_abstract_exclusions = [(''duplicate_methodologies'', 1)],
       studies_df =
         DataFrame [example_study 1 100, example_study 2 200, example_study 3 300,
                    example_study 4 20] \<rparr>"

section \<open>prisma_config.py\<close>

text \<open>The entries \<open>target_numbers\<close> and \<open>title_abstract_exclusions\<close> of
  \<open>STUDY_SELECTION_CONFIG\<close>.\<close>

definition STUDY_SELECTION_CONFIG_target_numbers :: "(string \<times> int) list" where
  "STUDY_SELECTION_CONFIG_target_numbers =
     [(''initial_records'', 462),
      (''title_abstract_excluded'', 60),
      (''full_text_excluded'', 314),
      (''final_included'', 88)]"

definition STUDY_SELECTION_CONFIG_title_abstract_exclusions :: "(string \<times> int) list" where
  "STUDY_SELECTION_CONFIG_title_abstract_exclusions =
     [(''duplicate_methodologies'', 10),
      (''insufficient_deep_learning'', 10),
      (''preliminary_results'', 8),
      (''no_spatial_resolution'', 7),
      (''non_cardiac_focus'', 6),
      (''insufficient_methodology'', 6),
      (''small_sample_sizes'', 4),
      (''theoretical_only'', 4),
      (''language_barriers'', 3),
      (''publication_type_mismatch'', 3)]"

section \<open>The scripts that read and write tables\<close>

text \<open>
  A data frame read from a file is the list of its column names and the list of its rows.
  The scripts print to the console and reach the file system through pandas, \<open>open\<close> and
  \<open>subprocess\<close>; the console is the list of the strings printed, one for each call of
  \<open>print\<close>, and the file system is a state \<open>'w\<close> of the environment.
\<close>

record table =
  columns :: "string list"
  rows :: "string list list"









subsection \<open>read_csv_display.py\<close>




subsection \<open>fix_csv_formatting.py\<close>









subsection \<open>main of prisma_study_methodology.py\<close>





subsection \<open>Environments for the examples\<close>





section \<open>Properties of calculate_cohens_kappa\<close>




lemma py_round_3_grid: "py_round x 3 = of_int (round_half_even (x * 1000)) / 1000"
  by (simp add: py_round_def)


lemma getitem_matrix_of:
  "getitem (matrix_of a b c d) ''include_include'' = Inr a"
  "getitem (matrix_of a b c d) ''include_exclude'' = Inr b"
  "getitem (matrix_of a b c d) ''exclude_include'' = Inr c"
  "getitem (matrix_of a b c d) ''exclude_exclude'' = Inr d"
  by (simp_all add: getitem_def matrix_of_def)

lemma calculate_cohens_kappa_run:
  assumes "a + b + c + d \<noteq> 0"
  shows "calculate_cohens_kappa self (Some (matrix_of a b c d)) =
           Inr (py_round (textbook_kappa a b c d) 3, interpretation_of (textbook_kappa a b c d))"
  using assms
  by (simp add: calculate_cohens_kappa_def getitem_matrix_of and_then_def truediv_def
      textbook_kappa_def textbook_pe_def textbook_po_def Let_def)




text \<open>
  Claim C9. For a confusion matrix with nonnegative cells and a positive total no division
  of \<open>calculate_cohens_kappa\<close> has a zero divisor: dividing by \<open>n\<close> succeeds, the division by
  \<open>1 - pe\<close> is only reached with \<open>pe \<noteq> 1\<close>, and with \<open>pe = 1\<close> the function returns kappa 1
  without dividing.
\<close>

theorem calculate_cohens_kappa_no_zero_division:
  assumes "0 \<le> a" "0 \<le> b" "0 \<le> c" "0 \<le> d" "0 < a + b + c + d"
  shows "(\<forall>x. truediv x (of_int (a + b + c + d)) = Inr (x / of_int (a + b + c + d)))
       \<and> (textbook_pe a b c d \<noteq> 1 \<longrightarrow>
            truediv (textbook_po a b c d - textbook_pe a b c d) (1 - textbook_pe a b c d)
              \<noteq> Inl ZeroDivisionError)
       \<and> (textbook_pe a b c d = 1 \<longrightarrow>
            calculate_cohens_kappa self (Some (matrix_of a b c d)) =
              Inr (1, ''Almost perfect agreement''))
       \<and> (\<exists>r s. calculate_cohens_kappa self (Some (matrix_of a b c d)) = Inr (r, s))"
proof -
  have n: "a + b + c + d \<noteq> 0" using assms by simp
  have run: "calculate_cohens_kappa self (Some (matrix_of a b c d)) =
      Inr (py_round (textbook_kappa a b c d) 3, interpretation_of (textbook_kappa a b c d))"
    by (rule calculate_cohens_kappa_run [OF n])
  have divn: "\<forall>x. truediv x (of_int (a + b + c + d)) = Inr (x / of_int (a + b + c + d))"
    using n by (simp add: truediv_def)
  have guarded: "textbook_pe a b c d \<noteq> 1 \<longrightarrow>
      truediv (textbook_po a b c d - textbook_pe a b c d) (1 - textbook_pe a b c d)
        \<noteq> Inl ZeroDivisionError"
    by (simp add: truediv_def)
  have one: "textbook_pe a b c d = 1 \<longrightarrow>
      calculate_cohens_kappa self (Some (matrix_of a b c d)) = Inr (1, ''Almost perfect agreement'')"
    using run by (simp add: textbook_kappa_def py_round_def round_half_even_def interpretation_of_def)
  show ?thesis using divn guarded one run by blast
qed

theorem calculate_cohens_kappa_no_zero_division_witness:
  "(0::int) \<le> 5 \<and> (0::int) \<le> 0 \<and> (0::int) < 5 + 0 + 0 + 0
   \<and> textbook_pe 5 0 0 0 = 1
   \<and> truediv (textbook_po 5 0 0 0 - textbook_pe 5 0 0 0) (1 - textbook_pe 5 0 0 0)
        = Inl ZeroDivisionError
   \<and> calculate_cohens_kappa (methodology_init 42) (Some (matrix_of 5 0 0 0)) =
        Inr (1, ''Almost perfect agreement'')
   \<and> textbook_pe 75 8 9 370 \<noteq> 1
   \<and> truediv (textbook_po 75 8 9 370 - textbook_pe 75 8 9 370) (1 - textbook_pe 75 8 9 370)
        \<noteq> Inl ZeroDivisionError
   \<and> calculate_cohens_kappa (methodology_init 42) (Some (matrix_of 0 0 0 0)) =
        Inl ZeroDivisionError"
proof -
  have pe: "textbook_pe 5 0 0 0 = 1"
    by (simp add: textbook_pe_def)
  have pe': "textbook_pe 75 8 9 370 \<noteq> 1"
    by (simp add: textbook_pe_def)
  have z: "calculate_cohens_kappa (methodology_init 42) (Some (matrix_of 0 0 0 0)) =
      Inl ZeroDivisionError"
    by (simp add: calculate_cohens_kappa_def getitem_matrix_of and_then_def truediv_def)
  show ?thesis
    using calculate_cohens_kappa_no_zero_division [of 5 0 0 0 "methodology_init 42"]
      calculate_cohens_kappa_no_zero_division [of 75 8 9 370 "methodology_init 42"] pe pe' z
    by (simp add: truediv_def)
qed

section \<open>Programs, frames and dictionaries\<close>

lemma seq_ret: "seq (ret x) f = f x"
  by (rule ext) (simp add: seq_def ret_def)

lemma seq_raise: "seq (raise e) f = raise e"
  by (rule ext) (simp add: seq_def raise_def)

lemma seq_Inr: "m s = (Inr x, s') \<Longrightarrow> seq m f s = f x s'"
  by (simp add: seq_def)

lemma seq_Inl: "m s = (Inl e, s') \<Longrightarrow> seq m f s = (Inl e, s')"
  by (simp add: seq_def)

lemma seq_eq_Inr:
  "seq m f s = (Inr y, s'') \<longleftrightarrow> (\<exists>x s'. m s = (Inr x, s') \<and> f x s' = (Inr y, s''))"
  by (auto simp: seq_def split: prod.splits sum.splits)

lemma drop_labels_ok:
  "set labels \<subseteq> set (index df) \<Longrightarrow>
   drop_labels df labels s = (Inr (filter (\<lambda>row. fst row \<notin> set labels) df), s)"
  by (auto simp: drop_labels_def ret_def)

lemma drop_labels_eq_Inr:
  "drop_labels df labels s = (Inr df', s') \<Longrightarrow>
   df' = filter (\<lambda>row. fst row \<notin> set labels) df \<and> s' = s \<and> set labels \<subseteq> set (index df)"
  by (auto simp: drop_labels_def ret_def raise_def split: if_splits)

lemma distinct_index_filter: "distinct (index df) \<Longrightarrow> distinct (index (filter Q df))"
  by (simp add: index_def distinct_map_filter)

lemma set_index_filter: "set (index (filter Q df)) \<subseteq> set (index df)"
  by (auto simp: index_def)

lemma length_kept:
  assumes "distinct (index df)" "distinct labels" "set labels \<subseteq> set (index df)"
  shows "length (filter (\<lambda>row. fst row \<notin> set labels) df) + length labels = length df"
proof -
  let ?hit = "filter (\<lambda>l. l \<in> set labels) (map fst df)"
  have m: "map fst (filter (\<lambda>row. fst row \<in> set labels) df) = ?hit"
    by (simp add: filter_map comp_def)
  have d: "distinct ?hit"
    using assms(1) by (simp add: index_def)
  have s: "set ?hit = set labels"
    using assms(3) by (auto simp: index_def)
  have "length ?hit = card (set ?hit)"
    using d by (simp only: distinct_card)
  also have "\<dots> = length labels"
    using assms(2) by (simp only: s distinct_card)
  finally have "length (filter (\<lambda>row. fst row \<in> set labels) df) = length labels"
    by (simp only: flip: m length_map [of fst])
  moreover have "length (filter (\<lambda>row. fst row \<in> set labels) df)
      + length (filter (\<lambda>row. \<not> fst row \<in> set labels) df) = length df"
    by (rule sum_length_filter_compl)
  ultimately show ?thesis by simp
qed

lemma sample_index_ok:
  assumes "sample_ok L" "0 \<le> n" "n \<le> int (length df)" "distinct (index df)"
  shows "\<exists>labels h'. sample_index L df n G = (Inr labels, G\<lparr>np_state := h'\<rparr>)
           \<and> length labels = nat n \<and> distinct labels \<and> set labels \<subseteq> set (index df)"
proof -
  obtain labels h' where d: "df_sample L (nat n) (index df) (np_state G) = (labels, h')"
    by (cases "df_sample L (nat n) (index df) (np_state G)")
  have le: "nat n \<le> length (index df)"
    using assms(2,3) by (simp add: index_def)
  have "length (fst (df_sample L (nat n) (index df) (np_state G))) = nat n
      \<and> distinct (fst (df_sample L (nat n) (index df) (np_state G)))
      \<and> set (fst (df_sample L (nat n) (index df) (np_state G))) \<subseteq> set (index df)"
    using assms(1,4) le unfolding sample_ok_def by blast
  then have "length labels = nat n \<and> distinct labels \<and> set labels \<subseteq> set (index df)"
    by (simp add: d)
  moreover have "sample_index L df n G = (Inr labels, G\<lparr>np_state := h'\<rparr>)"
    using assms(2,3) by (simp add: sample_index_def d)
  ultimately show ?thesis by blast
qed

lemma map_of_setitem_new: "\<not> contains d k \<Longrightarrow> map_of (setitem d k v) k = Some v"
  by (simp add: setitem_def contains_def map_of_eq_None_iff map_add_Some_iff)

lemma add_to_item_ok:
  "\<exists>d'. add_to_item (if \<not> contains d k then setitem d k 0 else d) k n s = (Inr d', s)"
proof (cases "contains d k")
  case True
  then obtain v where "map_of d k = Some v"
    by (auto simp: contains_def dest: weak_map_of_SomeI)
  with True show ?thesis by (simp add: add_to_item_def ret_def)
next
  case False
  then show ?thesis by (simp add: add_to_item_def ret_def map_of_setitem_new)
qed

lemma exclusion_loop_ok:
  "\<exists>reasons'. exclusion_loop df reasons excl s =
      (Inr (reasons', excl @ index (filter (\<lambda>row. exclude_reason_of (snd row) \<noteq> None) df)), s)"
proof (induction df arbitrary: reasons excl)
  case Nil
  show ?case by (simp add: ret_def index_def)
next
  case (Cons row df)
  obtain idx study where row: "row = (idx, study)" by (cases row)
  show ?case
  proof (cases "exclude_reason_of study")
    case None
    with Cons [of reasons excl] row show ?thesis by (simp add: index_def)
  next
    case (Some r)
    obtain d' where a: "add_to_item (if \<not> contains reasons r then setitem reasons r 0 else reasons) r 1 s
        = (Inr d', s)"
      using add_to_item_ok [of reasons r 1 s] by auto
    from Cons [of d' "excl @ [idx]"] row Some a show ?thesis
      by (simp add: index_def seq_def)
  qed
qed

lemma keep_unexcluded:
  assumes "distinct (index df)"
  shows "filter (\<lambda>row. fst row \<notin> set (index (filter (\<lambda>row. Q (snd row)) df))) df
       = filter (\<lambda>row. \<not> Q (snd row)) df"
proof (rule filter_cong [OF refl])
  fix row assume r: "row \<in> set df"
  have "fst row \<in> set (index (filter (\<lambda>row. Q (snd row)) df)) \<longleftrightarrow> Q (snd row)"
  proof
    assume "fst row \<in> set (index (filter (\<lambda>row. Q (snd row)) df))"
    then obtain row' where r': "row' \<in> set df" "Q (snd row')" "fst row' = fst row"
      by (auto simp: index_def)
    from assms r r'(1,3) have "row' = row"
      unfolding index_def by (meson distinct_map inj_onD)
    with r'(2) show "Q (snd row)" by simp
  next
    assume "Q (snd row)"
    with r show "fst row \<in> set (index (filter (\<lambda>row. Q (snd row)) df))"
      by (auto simp: index_def)
  qed
  then show "(fst row \<notin> set (index (filter (\<lambda>row. Q (snd row)) df))) = (\<not> Q (snd row))"
    by simp
qed

lemma apply_exclusion_criteria_ok:
  assumes "distinct (index df)"
  shows "\<exists>reasons. apply_exclusion_criteria df s =
           (Inr (filter (\<lambda>row. exclude_reason_of (snd row) = None) df, reasons), s)"
proof -
  let ?ex = "index (filter (\<lambda>row. exclude_reason_of (snd row) \<noteq> None) df)"
  obtain reasons where l: "exclusion_loop df [] [] s = (Inr (reasons, ?ex), s)"
    using exclusion_loop_ok [of df "[]" "[]" s] by auto
  have sub: "set ?ex \<subseteq> set (index df)"
    by (rule set_index_filter)
  have d: "drop_labels df ?ex s = (Inr (filter (\<lambda>row. fst row \<notin> set ?ex) df), s)"
    by (rule drop_labels_ok [OF sub])
  have "apply_exclusion_criteria df s =
      (Inr (filter (\<lambda>row. fst row \<notin> set ?ex) df, reasons), s)"
    by (simp only: apply_exclusion_criteria_def seq_def l d ret_def prod.case sum.case)
  then show ?thesis
    using keep_unexcluded [OF assms, of "\<lambda>s. exclude_reason_of s \<noteq> None"] by auto
qed

section \<open>Properties of prisma_study_selection.py\<close>

subsection \<open>Screening reads NumPy's generator only\<close>

lemma seq_preserves_py:
  assumes m: "\<And>G r G'. m G = (r, G') \<Longrightarrow> py_state G' = py_state G"
    and f: "\<And>x G r G'. f x G = (r, G') \<Longrightarrow> py_state G' = py_state G"
    and run: "seq m f G = (r, G')"
  shows "py_state G' = py_state G"
proof (cases "m G")
  case (Pair a G1)
  note mG = Pair
  show ?thesis
  proof (cases a)
    case (Inl e)
    with mG run have "G' = G1" by (simp add: seq_def)
    with m [OF mG] show ?thesis by simp
  next
    case (Inr x)
    with mG run have "f x G1 = (r, G')" by (simp add: seq_def)
    from f [OF this] m [OF mG] show ?thesis by simp
  qed
qed

lemma ret_preserves: "ret x G = (r, G') \<Longrightarrow> G' = G"
  by (auto simp: ret_def)

lemma raise_preserves: "raise e G = (r, G') \<Longrightarrow> G' = G"
  by (auto simp: raise_def)

lemma drop_labels_preserves: "drop_labels df labels G = (r, G') \<Longrightarrow> G' = G"
  by (auto simp: drop_labels_def ret_def raise_def split: if_splits)

lemma add_to_item_preserves: "add_to_item d k n G = (r, G') \<Longrightarrow> G' = G"
  by (auto simp: add_to_item_def ret_def raise_def split: option.splits)

lemma sample_index_preserves_py:
  "sample_index L df n G = (r, G') \<Longrightarrow> py_state G' = py_state G"
  by (auto simp: sample_index_def split: if_splits prod.splits)

lemma exclusion_loop_preserves: "exclusion_loop df reasons excl G = (r, G') \<Longrightarrow> G' = G"
  using exclusion_loop_ok [of df reasons excl G] by auto

lemma apply_exclusion_criteria_preserves:
  "apply_exclusion_criteria df G = (r, G') \<Longrightarrow> G' = G"
  unfolding apply_exclusion_criteria_def
  by (auto simp: seq_def ret_def split: prod.splits sum.splits
      dest!: exclusion_loop_preserves drop_labels_preserves)

lemma title_abstract_loop_preserves_py:
  "title_abstract_loop L items excl counts rem G = (r, G') \<Longrightarrow> py_state G' = py_state G"
proof (induction items arbitrary: excl counts rem G r G')
  case Nil
  then show ?case by (auto simp: ret_def)
next
  case (Cons item items)
  obtain reason count where item: "item = (reason, count)" by (cases item)
  show ?case
  proof (cases "int (length rem) \<ge> count")
    case False
    with Cons item show ?thesis by simp
  next
    case True
    with Cons.prems item have run:
      "seq (sample_index L rem count) (\<lambda>to_exclude.
         seq (drop_labels rem to_exclude) (\<lambda>rem'.
           title_abstract_loop L items (excl @ to_exclude) (setitem counts reason count) rem')) G
       = (r, G')" by simp
    show ?thesis
    proof (rule seq_preserves_py [OF _ _ run])
      show "\<And>G r G'. sample_index L rem count G = (r, G') \<Longrightarrow> py_state G' = py_state G"
        by (rule sample_index_preserves_py)
    next
      fix x G r G'
      assume inner: "seq (drop_labels rem x) (\<lambda>rem'.
           title_abstract_loop L items (excl @ x) (setitem counts reason count) rem') G = (r, G')"
      show "py_state G' = py_state G"
      proof (rule seq_preserves_py [OF _ _ inner])
        show "\<And>G r G'. drop_labels rem x G = (r, G') \<Longrightarrow> py_state G' = py_state G"
          by (drule drop_labels_preserves) simp
      next
        show "\<And>xa G r G'. title_abstract_loop L items (excl @ x) (setitem counts reason count) xa G = (r, G')
           \<Longrightarrow> py_state G' = py_state G"
          by (rule Cons.IH)
      qed
    qed
  qed
qed

lemma title_abstract_screening_preserves_py:
  assumes "title_abstract_screening L self G = (r, G')"
  shows "py_state G' = py_state G"
  using assms unfolding title_abstract_screening_def Let_def
  by (auto simp: seq_def ret_def split: prod.splits sum.splits
      dest!: title_abstract_loop_preserves_py drop_labels_preserves)

lemma full_text_screening_preserves_py:
  assumes "full_text_screening L self df G = (r, G')"
  shows "py_state G' = py_state G"
  using assms unfolding full_text_screening_def Let_def
  by (auto simp: seq_def ret_def split: prod.splits sum.splits if_splits
      dest!: apply_exclusion_criteria_preserves drop_labels_preserves add_to_item_preserves
        sample_index_preserves_py)

subsection \<open>The simulated agreement\<close>

lemma round_half_even_cases: "round_half_even y = \<lfloor>y\<rfloor> \<or> round_half_even y = \<lfloor>y\<rfloor> + 1 \<and> of_int \<lfloor>y\<rfloor> < y"
  by (auto simp: round_half_even_def Let_def not_less)

lemma round_half_even_lower: "of_int m \<le> y \<Longrightarrow> m \<le> round_half_even y"
proof -
  assume "of_int m \<le> y"
  then have "m \<le> \<lfloor>y\<rfloor>" by (simp add: le_floor_iff)
  with round_half_even_cases [of y] show ?thesis by auto
qed

lemma round_half_even_upper: "y \<le> of_int m \<Longrightarrow> round_half_even y \<le> m"
proof -
  assume a: "y \<le> of_int m"
  have f: "\<lfloor>y\<rfloor> \<le> m" using a by (simp add: floor_le_iff)
  have "of_int \<lfloor>y\<rfloor> < y \<Longrightarrow> \<lfloor>y\<rfloor> + 1 \<le> m"
  proof -
    assume "of_int \<lfloor>y\<rfloor> < y"
    with a have "(of_int \<lfloor>y\<rfloor> :: rat) < of_int m" by linarith
    then show ?thesis by simp
  qed
  with f round_half_even_cases [of y] show ?thesis by auto
qed

lemma py_round_3_bounds:
  assumes "of_int lo / 1000 \<le> x" "x \<le> of_int hi / 1000"
  shows "of_int lo / 1000 \<le> py_round x 3 \<and> py_round x 3 \<le> of_int hi / 1000"
proof -
  have "of_int lo \<le> x * 1000" "x * 1000 \<le> of_int hi"
    using assms by (simp_all add: field_simps)
  then have "lo \<le> round_half_even (x * 1000)" "round_half_even (x * 1000) \<le> hi"
    by (auto intro: round_half_even_lower round_half_even_upper)
  then have "(of_int lo :: rat) \<le> of_int (round_half_even (x * 1000))"
    "(of_int (round_half_even (x * 1000)) :: rat) \<le> of_int hi"
    by simp_all
  then show ?thesis
    by (simp add: py_round_3_grid divide_right_mono)
qed

lemma calculate_inter_rater_agreement_eq:
  "calculate_inter_rater_agreement L self G =
     (Inr (py_round (75 / 100 + (95 / 100 - 75 / 100) * fst (py_random L (py_state G))) 3),
      G\<lparr>py_state := snd (py_random L (py_state G))\<rparr>)"
  by (simp add: calculate_inter_rater_agreement_def uniform_def seq_def random_random_def ret_def
      split: prod.splits)

lemma generate_prisma_flow_data_Inr:
  assumes run: "generate_prisma_flow_data L self G = (Inr d, G')"
  obtains after tex G1 fin fex G2 where
    "title_abstract_screening L self G = (Inr (after, tex), G1)"
    "full_text_screening L self after G1 = (Inr (fin, fex), G2)"
    "title_abstract_eligible_for_screening d = int (length after) + values_sum tex"
    "title_abstract_excluded_count d = values_sum tex"
    "title_abstract_remaining d = int (length after)"
    "full_text_assessed d = int (length after)"
    "full_text_excluded_count d = int (length after) - int (length fin)"
    "full_text_included d = int (length fin)"
    "inclusion_final_synthesis d = int (length fin)"
    "inclusion_study_characteristics d = analyze_included_studies fin"
    "agreement_cohens_kappa d =
       py_round (75 / 100 + (95 / 100 - 75 / 100) * fst (py_random L (py_state G))) 3"
    "agreement_interpretation d =
       (if agreement_cohens_kappa d > 8 / 10 then ''Substantial agreement''
        else ''Moderate agreement'')"
    "py_state G' = snd (py_random L (py_state G))"
    "np_state G' = np_state G2"
proof -
  obtain r1 G1 where t: "title_abstract_screening L self G = (r1, G1)"
    by (cases "title_abstract_screening L self G")
  from run t obtain x1 where r1: "r1 = Inr x1"
    by (cases r1) (simp_all add: generate_prisma_flow_data_def seq_def)
  obtain after tex where x1: "x1 = (after, tex)" by (cases x1)
  obtain r2 G2 where f: "full_text_screening L self after G1 = (r2, G2)"
    by (cases "full_text_screening L self after G1")
  from run t r1 x1 f obtain x2 where r2: "r2 = Inr x2"
    by (cases r2) (simp_all add: generate_prisma_flow_data_def seq_def)
  obtain fin fex where x2: "x2 = (fin, fex)" by (cases x2)
  have py: "py_state G2 = py_state G"
    using title_abstract_screening_preserves_py [OF t] full_text_screening_preserves_py [OF f]
    by simp
  have d: "d = \<lparr> identification_initial_records = initial_records self,
           identification_search_databases =
             [''PubMed'', ''Web of Science'', ''Embase'', ''IEEE Xplore'',
              ''ACM Digital Library'', ''arXiv'', ''bioRxiv''],
           title_abstract_eligible_for_screening = int (length after) + values_sum tex,
           title_abstract_excluded_count = values_sum tex,
           title_abstract_exclusion_reasons = tex,
           title_abstract_remaining = int (length after),
           agreement_cohens_kappa =
             py_round (75 / 100 + (95 / 100 - 75 / 100) * fst (py_random L (py_state G))) 3,
           agreement_interpretation =
             (if py_round (75 / 100 + (95 / 100 - 75 / 100) * fst (py_random L (py_state G))) 3
                 > 8 / 10
              then ''Substantial agreement'' else ''Moderate agreement''),
           full_text_assessed = int (length after),
           full_text_excluded_count = int (length after) - int (length fin),
           full_text_exclusion_reasons = fex,
           full_text_included = int (length fin),
           inclusion_final_synthesis = int (length fin),
           inclusion_study_characteristics = analyze_included_studies fin \<rparr>"
    and G': "G' = G2\<lparr>py_state := snd (py_random L (py_state G))\<rparr>"
    using run t r1 x1 f r2 x2
    by (simp_all add: generate_prisma_flow_data_def seq_def calculate_inter_rater_agreement_eq
        ret_def py)
  show thesis
  proof (rule that [of after tex G1 fin fex G2])
    show "title_abstract_screening L self G = (Inr (after, tex), G1)"
      using t r1 x1 by simp
    show "full_text_screening L self after G1 = (Inr (fin, fex), G2)"
      using f r2 x2 by simp
  qed (simp_all add: d G')
qed

subsection \<open>The flow on the small instance\<close>

lemma counting_library_random_ok: "random_ok counting_library"
  by (simp add: random_ok_def counting_library_def)

lemma example_flow:
  "generate_prisma_flow_data counting_library example_selection \<lparr>py_state = 7, np_state = 0\<rparr> =
   (Inr \<lparr>identification_initial_records = 4,
         identification_search_databases =
           [''PubMed'', ''Web of Science'', ''Embase'', ''IEEE Xplore'',
            ''ACM Digital Library'', ''arXiv'', ''bioRxiv''],
         title_abstract_eligible_for_screening = 4,
         title_abstract_excluded_count = 1,
         title_abstract_exclusion_reasons = [(''duplicate_methodologies'', 1)],
         title_abstract_remaining = 3, agreement_cohens_kappa = 89 / 100,
         agreement_interpretation = ''Substantial agreement'',
         full_text_assessed = 3, full_text_excluded_count = 2,
         full_text_exclusion_reasons =
           [(''small_sample_sizes'', 1), (''methodological_overlap'', 1)],
         full_text_included = 1, inclusion_final_synthesis = 1,
         inclusion_study_characteristics =
           Some \<lparr>total_studies = 1, year_distribution = [(2021, 1)],
               journal_distribution = [(''Cell'', 1)], gnn_studies = 1,
               rnn_studies = 0, attention_studies = 1,
               spatial_omics_studies = 1, sample_size_mean = 200,
               sample_size_median = 200, sample_size_min = 200,
               sample_size_max = 200\<rparr>\<rparr>,
    \<lparr>py_state = 8, np_state = 2\<rparr>)"
  by code_simp


subsection \<open>The agreement and the counts of a flow\<close>

text \<open>
  Claim C8. With \<open>random()\<close> in \<open>[0, 1)\<close>, \<open>calculate_inter_rater_agreement\<close> returns a multiple
  of 0.001 between 0.75 and 0.95. The value is the same for every instance and, in a flow,
  is fixed by the state of Python's generator when \<open>generate_prisma_flow_data\<close> is entered:
  no study and no screening decision enters it. The interpretation of the flow is
  'Substantial agreement' above 0.8 and 'Moderate agreement' otherwise.
\<close>

theorem inter_rater_agreement_range:
  assumes "random_ok L"
  shows "\<exists>kappa. fst (calculate_inter_rater_agreement L self G) = Inr kappa
           \<and> 75 / 100 \<le> kappa \<and> kappa \<le> 95 / 100
           \<and> (\<exists>m::int. kappa = of_int m / 1000)
           \<and> fst (calculate_inter_rater_agreement L self' G) = Inr kappa
           \<and> (\<forall>d G'. generate_prisma_flow_data L self G = (Inr d, G') \<longrightarrow>
                 agreement_cohens_kappa d = kappa
                 \<and> agreement_interpretation d =
                     (if kappa > 8 / 10 then ''Substantial agreement''
                      else ''Moderate agreement''))"
proof -
  let ?u = "fst (py_random L (py_state G))"
  let ?x = "75 / 100 + (95 / 100 - 75 / 100) * ?u"
  have u: "0 \<le> ?u" "?u < 1"
    using assms by (simp_all add: random_ok_def)
  have "of_int 750 / 1000 \<le> ?x" "?x \<le> of_int 950 / 1000"
    using u by simp_all
  then have "of_int 750 / 1000 \<le> py_round ?x 3 \<and> py_round ?x 3 \<le> of_int 950 / 1000"
    by (rule py_round_3_bounds)
  then have b: "75 / 100 \<le> py_round ?x 3" "py_round ?x 3 \<le> 95 / 100"
    by simp_all
  have g: "\<exists>m::int. py_round ?x 3 = of_int m / 1000"
    using py_round_3_grid by blast
  have flow: "agreement_cohens_kappa d = py_round ?x 3
      \<and> agreement_interpretation d =
          (if py_round ?x 3 > 8 / 10 then ''Substantial agreement'' else ''Moderate agreement'')"
    if "generate_prisma_flow_data L self G = (Inr d, G')" for d G'
    using that by (rule generate_prisma_flow_data_Inr) simp
  have c: "fst (calculate_inter_rater_agreement L self G) = Inr (py_round ?x 3)"
    "fst (calculate_inter_rater_agreement L self' G) = Inr (py_round ?x 3)"
    by (simp_all only: calculate_inter_rater_agreement_eq fst_conv)
  show ?thesis
  proof (intro exI [of _ "py_round ?x 3"] conjI allI impI)
    show "fst (calculate_inter_rater_agreement L self G) = Inr (py_round ?x 3)" by (rule c)
    show "fst (calculate_inter_rater_agreement L self' G) = Inr (py_round ?x 3)" by (rule c)
    show "75 / 100 \<le> py_round ?x 3" by (rule b)
    show "py_round ?x 3 \<le> 95 / 100" by (rule b)
    show "\<exists>m::int. py_round ?x 3 = of_int m / 1000" by (rule g)
  next
    fix d G' assume "generate_prisma_flow_data L self G = (Inr d, G')"
    from flow [OF this] show "agreement_cohens_kappa d = py_round ?x 3" by simp
  next
    fix d G' assume "generate_prisma_flow_data L self G = (Inr d, G')"
    from flow [OF this] show "agreement_interpretation d =
          (if py_round ?x 3 > 8 / 10 then ''Substantial agreement'' else ''Moderate agreement'')"
      by simp
  qed
qed

theorem inter_rater_agreement_range_witness:
  "random_ok counting_library
   \<and> (\<exists>d G'. generate_prisma_flow_data counting_library example_selection
               \<lparr>py_state = 7, np_state = 0\<rparr> = (Inr d, G')
        \<and> agreement_cohens_kappa d = 89 / 100
        \<and> agreement_interpretation d = ''Substantial agreement'')
   \<and> fst (calculate_inter_rater_agreement counting_library example_selection
            \<lparr>py_state = 0, np_state = 0\<rparr>) = Inr (75 / 100)"
proof -
  have k: "fst (calculate_inter_rater_agreement counting_library example_selection
      \<lparr>py_state = 7, np_state = 0\<rparr>) = Inr (89 / 100)"
    by code_simp
  have k0: "fst (calculate_inter_rater_agreement counting_library example_selection
      \<lparr>py_state = 0, np_state = 0\<rparr>) = Inr (75 / 100)"
    by code_simp
  from inter_rater_agreement_range [OF counting_library_random_ok,
      of example_selection "\<lparr>py_state = 7, np_state = 0\<rparr>" example_selection]
  obtain kappa where
    a: "fst (calculate_inter_rater_agreement counting_library example_selection
          \<lparr>py_state = 7, np_state = 0\<rparr>) = Inr kappa"
    and f: "\<And>d G'. generate_prisma_flow_data counting_library example_selection
          \<lparr>py_state = 7, np_state = 0\<rparr> = (Inr d, G') \<Longrightarrow>
        agreement_cohens_kappa d = kappa
        \<and> agreement_interpretation d =
            (if kappa > 8 / 10 then ''Substantial agreement'' else ''Moderate agreement'')"
    by blast
  from a k have kappa: "kappa = 89 / 100" by simp
  from f [OF example_flow] kappa example_flow counting_library_random_ok k0
  show ?thesis by simp
qed

text \<open>
  Claim C10. Every flow dictionary that \<open>generate_prisma_flow_data\<close> returns conserves the
  counts: the records eligible for title and abstract screening are those excluded plus
  those remaining, the full texts assessed are those excluded plus those included, and the
  full texts assessed are the records that remained.
\<close>

theorem flow_conserves_counts:
  assumes "generate_prisma_flow_data L self G = (Inr d, G')"
  shows "title_abstract_eligible_for_screening d
           = title_abstract_excluded_count d + title_abstract_remaining d
       \<and> full_text_assessed d = full_text_excluded_count d + full_text_included d
       \<and> full_text_assessed d = title_abstract_remaining d"
  using assms by (rule generate_prisma_flow_data_Inr) simp

theorem flow_conserves_counts_witness:
  "\<exists>d G'. generate_prisma_flow_data counting_library example_selection
             \<lparr>py_state = 7, np_state = 0\<rparr> = (Inr d, G')
     \<and> title_abstract_eligible_for_screening d = 4
     \<and> title_abstract_excluded_count d = 1
     \<and> title_abstract_remaining d = 3
     \<and> full_text_assessed d = 3
     \<and> full_text_excluded_count d = 2
     \<and> full_text_included d = 1"
  using flow_conserves_counts [OF example_flow] example_flow by simp

subsection \<open>Under the documented ranges the methods return\<close>

lemma returns_ret: "returns (ret x)"
  by (simp add: returns_def ret_def)

lemma returns_seq: "returns m \<Longrightarrow> (\<And>x. returns (f x)) \<Longrightarrow> returns (seq m f)"
  unfolding returns_def seq_def
proof (intro allI)
  fix s
  assume m: "\<forall>s. \<exists>x s'. m s = (Inr x, s')" and f: "\<And>x. \<forall>s. \<exists>y s'. f x s = (Inr y, s')"
  from m obtain x s' where ms: "m s = (Inr x, s')" by blast
  from f [of x] obtain y s'' where "f x s' = (Inr y, s'')" by blast
  with ms show "\<exists>x s'. (case m s of (Inl e, s') \<Rightarrow> (Inl e, s') | (Inr x, s') \<Rightarrow> f x s') = (Inr x, s')"
    by simp
qed

lemma returns_if: "(c \<Longrightarrow> returns a) \<Longrightarrow> (\<not> c \<Longrightarrow> returns b) \<Longrightarrow> returns (if c then a else b)"
  by simp

lemma returns_randint: "a \<le> b \<Longrightarrow> returns (randint L a b)"
  by (simp add: returns_def randint_def seq_def randbelow_def ret_def split: prod.splits)

lemma returns_choice:
  fixes L :: "('a, 'b) library"
  assumes "randbelow_ok L" "xs \<noteq> []"
  shows "returns (choice L xs)"
proof -
  have b: "fst (py_randbelow L (length xs) g) < length xs" for g
    using assms by (simp add: randbelow_ok_def)
  show ?thesis
    unfolding returns_def
  proof (intro allI)
    fix s :: "('a, 'b) interp"
    obtain r g' where d: "py_randbelow L (length xs) (py_state s) = (r, g')"
      by (cases "py_randbelow L (length xs) (py_state s)")
    with b [of "py_state s"] have "r < length xs" by simp
    with d assms(2) show "\<exists>x s'. choice L xs s = (Inr x, s')"
      by (simp add: choice_def seq_def randbelow_def item_def ret_def)
  qed
qed

lemma bisect_le: "lo \<le> hi \<Longrightarrow> bisect a x lo hi \<le> hi"
proof (induction a x lo hi rule: bisect.induct)
  case (1 a x lo hi)
  show ?case
  proof (cases "lo < hi")
    case False
    with "1.prems" show ?thesis by (simp add: bisect.simps)
  next
    case True
    let ?mid = "(lo + hi) div 2"
    have m: "lo \<le> ?mid" "?mid < hi" using True by simp_all
    show ?thesis
    proof (cases "x < a ! ?mid")
      case True
      from "1.IH"(1) [OF \<open>lo < hi\<close> refl True m(1)] m(2) \<open>lo < hi\<close> True
      show ?thesis by (subst bisect.simps) (simp add: Let_def)
    next
      case False
      have "?mid + 1 \<le> hi" using m(2) by simp
      from "1.IH"(2) [OF \<open>lo < hi\<close> refl False this] \<open>lo < hi\<close> False
      show ?thesis by (subst bisect.simps) (simp add: Let_def)
    qed
  qed
qed

lemma returns_choices:
  assumes "length weights = length population" "population \<noteq> []" "0 < last (accumulate weights)"
  shows "returns (choices L population weights)"
proof -
  have "bisect (accumulate weights) x 0 (length population - 1) < length population" for x
    using bisect_le [of 0 "length population - 1" "accumulate weights" x] assms(2)
    by (cases population) simp_all
  then show ?thesis
    using assms
    by (auto simp: returns_def choices_def Let_def seq_def random_random_def item_def ret_def
        split: prod.splits)
qed

lemma returns_flag:
  assumes "randbelow_ok L" "0 < w1 + w2"
  shows "returns (flag L q w1 w2)"
  unfolding flag_def
  by (intro returns_if returns_choice returns_choices assms) (simp_all add: accumulate_def assms)

lemma returns_synthetic_study:
  assumes "randbelow_ok L"
  shows "returns (synthetic_study L target_qualified i)"
  unfolding synthetic_study_def Let_def
  by (intro returns_seq returns_ret returns_if returns_randint returns_flag returns_choice
      returns_choices assms) (simp_all add: accumulate_def)

lemma returns_synthetic_studies_loop:
  assumes "randbelow_ok L"
  shows "returns (synthetic_studies_loop L target_qualified rest studies)"
proof (induction rest arbitrary: studies)
  case Nil
  show ?case by (simp add: returns_ret)
next
  case (Cons i rest)
  show ?case
    by (simp only: synthetic_studies_loop.simps)
      (intro returns_seq returns_synthetic_study assms Cons)
qed

lemma index_DataFrame: "index (DataFrame studies) = [0..<length studies]"
  by (simp add: index_def DataFrame_def)

lemma interp_overwrite:
  "(G :: ('g, 'h) interp)\<lparr>py_state := a, np_state := b\<rparr> = \<lparr>py_state = a, np_state = b\<rparr>"
  by (cases G) simp

lemma selection_init_forgets:
  "selection_init L seed_arg G =
     seq (generate_synthetic_studies L 88 462) (\<lambda>studies_df.
        ret \<lparr> initial_records = 462,
              title_abstract_excluded = 60,
              full_text_excluded = 314,
              final_included = 88,
              title_abstract_exclusions = selection_title_abstract_exclusions,
              studies_df = studies_df \<rparr>)
       \<lparr>py_state = py_seed L seed_arg, np_state = np_seed L seed_arg\<rparr>"
  by (simp add: selection_init_def seq_def random_seed_def np_random_seed_def Let_def
      interp_overwrite)

lemma selection_init_returns:
  assumes "randbelow_ok L"
  shows "\<exists>self G'. selection_init L seed_arg G = (Inr self, G')
           \<and> distinct (index (studies_df self))
           \<and> final_included self = 88
           \<and> title_abstract_exclusions self = selection_title_abstract_exclusions"
proof -
  let ?G = "\<lparr>py_state = py_seed L seed_arg, np_state = np_seed L seed_arg\<rparr>"
  have "returns (synthetic_studies_loop L (88 + 50) [0..<nat 462] [])"
    by (rule returns_synthetic_studies_loop [OF assms])
  then obtain studies G' where
    l: "synthetic_studies_loop L (88 + 50) [0..<nat 462] [] ?G = (Inr studies, G')"
    unfolding returns_def by blast
  have "selection_init L seed_arg G =
      (Inr \<lparr> initial_records = 462, title_abstract_excluded = 60, full_text_excluded = 314,
             final_included = 88,
             title_abstract_exclusions = selection_title_abstract_exclusions,
             studies_df = DataFrame studies \<rparr>, G')"
    unfolding selection_init_forgets generate_synthetic_studies_def Let_def
    by (simp only: seq_def l prod.case sum.case ret_def)
  then show ?thesis
    by (simp add: index_DataFrame)
qed

lemma title_abstract_loop_returns:
  assumes "sample_ok L" "distinct (index rem)" "\<forall>item \<in> set items. 0 \<le> snd item"
    "set (index rem) \<subseteq> S" "set excl \<subseteq> S"
  shows "\<exists>excl' counts' rem' G'.
           title_abstract_loop L items excl counts rem G = (Inr (excl', counts', rem'), G')
           \<and> set excl' \<subseteq> S"
  using assms(2-)
proof (induction items arbitrary: excl counts rem G)
  case Nil
  then show ?case by (simp add: ret_def)
next
  case (Cons item items)
  obtain reason count where item: "item = (reason, count)" by (cases item)
  show ?case
  proof (cases "int (length rem) \<ge> count")
    case False
    with Cons.IH [of rem excl counts G] Cons.prems item show ?thesis by simp
  next
    case True
    have c: "0 \<le> count" using Cons.prems(2) item by simp
    from sample_index_ok [OF assms(1) c True Cons.prems(1), of G]
    obtain labels h' where
      s: "sample_index L rem count G = (Inr labels, G\<lparr>np_state := h'\<rparr>)"
      and l: "set labels \<subseteq> set (index rem)"
      by blast
    let ?rem' = "filter (\<lambda>row. fst row \<notin> set labels) rem"
    have d: "drop_labels rem labels (G\<lparr>np_state := h'\<rparr>) = (Inr ?rem', G\<lparr>np_state := h'\<rparr>)"
      by (rule drop_labels_ok [OF l])
    have step: "title_abstract_loop L (item # items) excl counts rem G =
        title_abstract_loop L items (excl @ labels) (setitem counts reason count) ?rem'
          (G\<lparr>np_state := h'\<rparr>)"
      using True by (simp add: item seq_def s d)
    have "distinct (index ?rem')"
      by (rule distinct_index_filter [OF Cons.prems(1)])
    moreover have "\<forall>item \<in> set items. 0 \<le> snd item"
      using Cons.prems(2) by simp
    moreover have "set (index ?rem') \<subseteq> S"
      using set_index_filter [of _ rem] Cons.prems(3) by blast
    moreover have "set (excl @ labels) \<subseteq> S"
      using Cons.prems(3,4) l by auto
    ultimately show ?thesis
      unfolding step by (rule Cons.IH)
  qed
qed

lemma title_abstract_screening_returns:
  assumes "sample_ok L" "distinct (index (studies_df self))"
    "\<forall>item \<in> set (title_abstract_exclusions self). 0 \<le> snd item"
  shows "\<exists>after counts G'.
           title_abstract_screening L self G = (Inr (after, counts), G')
           \<and> distinct (index after)"
proof -
  let ?el = "apply_inclusion_criteria (studies_df self)"
  have dist: "distinct (index ?el)"
    unfolding apply_inclusion_criteria_def Let_def
    by (rule distinct_index_filter [OF assms(2)])
  from title_abstract_loop_returns [OF assms(1) dist assms(3) subset_refl, of "[]" "[]" G]
  obtain excl' counts' rem' G' where
    l: "title_abstract_loop L (title_abstract_exclusions self) [] [] ?el G
          = (Inr (excl', counts', rem'), G')"
    and sub: "set excl' \<subseteq> set (index ?el)"
    by auto
  have d: "drop_labels ?el excl' G' = (Inr (filter (\<lambda>row. fst row \<notin> set excl') ?el), G')"
    by (rule drop_labels_ok [OF sub])
  have "title_abstract_screening L self G =
      (Inr (filter (\<lambda>row. fst row \<notin> set excl') ?el, counts'), G')"
    unfolding title_abstract_screening_def Let_def
    by (simp only: seq_def l d prod.case sum.case ret_def)
  moreover have "distinct (index (filter (\<lambda>row. fst row \<notin> set excl') ?el))"
    by (rule distinct_index_filter [OF dist])
  ultimately show ?thesis by blast
qed

lemma full_text_screening_returns:
  assumes "sample_ok L" "distinct (index df)" "0 \<le> final_included self"
  shows "\<exists>included reasons G'.
           full_text_screening L self df G = (Inr (included, reasons), G')
           \<and> int (length included) =
               min (int (length (filter (\<lambda>row. exclude_reason_of (snd row) = None) df)))
                   (final_included self)"
proof -
  let ?kept = "filter (\<lambda>row. exclude_reason_of (snd row) = None) df"
  obtain reasons where a: "apply_exclusion_criteria df G = (Inr (?kept, reasons), G)"
    using apply_exclusion_criteria_ok [OF assms(2), of G] by blast
  show ?thesis
  proof (cases "int (length ?kept) > final_included self")
    case False
    then have "full_text_screening L self df G = (Inr (?kept, reasons), G)"
      by (simp add: full_text_screening_def seq_def a ret_def Let_def)
    with False show ?thesis by auto
  next
    case True
    let ?n = "int (length ?kept) - final_included self"
    have n: "0 \<le> ?n" "?n \<le> int (length ?kept)"
      using True assms(3) by simp_all
    have dk: "distinct (index ?kept)"
      by (rule distinct_index_filter [OF assms(2)])
    from sample_index_ok [OF assms(1) n dk, of G]
    obtain labels h' where
      s: "sample_index L ?kept ?n G = (Inr labels, G\<lparr>np_state := h'\<rparr>)"
      and len: "length labels = nat ?n" and dl: "distinct labels"
      and sub: "set labels \<subseteq> set (index ?kept)"
      by blast
    let ?inc = "filter (\<lambda>row. fst row \<notin> set labels) ?kept"
    have d: "drop_labels ?kept labels (G\<lparr>np_state := h'\<rparr>) = (Inr ?inc, G\<lparr>np_state := h'\<rparr>)"
      by (rule drop_labels_ok [OF sub])
    obtain reasons' where
      r: "add_to_item (if \<not> contains reasons ''methodological_overlap''
                       then setitem reasons ''methodological_overlap'' 0 else reasons)
            ''methodological_overlap'' ?n (G\<lparr>np_state := h'\<rparr>) = (Inr reasons', G\<lparr>np_state := h'\<rparr>)"
      using add_to_item_ok [of reasons "''methodological_overlap''" ?n "G\<lparr>np_state := h'\<rparr>"]
      by blast
    have run: "full_text_screening L self df G = (Inr (?inc, reasons'), G\<lparr>np_state := h'\<rparr>)"
      using True
      by (simp only: full_text_screening_def seq_def a prod.case sum.case Let_def if_True s d r
          ret_def)
    have "length ?inc + length labels = length ?kept"
      by (rule length_kept [OF dk dl sub])
    with len n have "int (length ?inc) = final_included self"
      by linarith
    with run True show ?thesis by auto
  qed
qed

lemma generate_prisma_flow_data_returns:
  assumes "sample_ok L" "distinct (index (studies_df self))"
    "\<forall>item \<in> set (title_abstract_exclusions self). 0 \<le> snd item" "0 \<le> final_included self"
  shows "\<exists>d G'. generate_prisma_flow_data L self G = (Inr d, G')"
proof -
  from title_abstract_screening_returns [OF assms(1-3), of G]
  obtain after counts G1 where
    t: "title_abstract_screening L self G = (Inr (after, counts), G1)"
    and da: "distinct (index after)"
    by blast
  from full_text_screening_returns [OF assms(1) da assms(4), of G1]
  obtain included reasons G2 where
    f: "full_text_screening L self after G1 = (Inr (included, reasons), G2)"
    by blast
  show ?thesis
    unfolding generate_prisma_flow_data_def
    by (simp only: seq_def t f prod.case sum.case calculate_inter_rater_agreement_eq ret_def)
      blast
qed

subsection \<open>The small library keeps the documented ranges\<close>






subsection \<open>The number of studies that reach the final synthesis\<close>

lemma title_abstract_loop_rows:
  assumes "title_abstract_loop L items excl counts rem G = (Inr (excl', counts', rem'), G')"
    and "rem = filter (\<lambda>row. fst row \<notin> set excl) el"
  shows "rem' = filter (\<lambda>row. fst row \<notin> set excl') el"
  using assms
proof (induction items arbitrary: excl counts rem G)
  case Nil
  then show ?case by (auto simp: ret_def)
next
  case (Cons item items)
  obtain reason count where item: "item = (reason, count)" by (cases item)
  show ?case
  proof (cases "int (length rem) \<ge> count")
    case False
    with Cons.prems item have
      "title_abstract_loop L items excl counts rem G = (Inr (excl', counts', rem'), G')"
      by simp
    from Cons.IH [OF this Cons.prems(2)] show ?thesis .
  next
    case True
    with Cons.prems(1) item obtain labels G1 rem1 G2 where
      s: "sample_index L rem count G = (Inr labels, G1)" and
      d: "drop_labels rem labels G1 = (Inr rem1, G2)" and
      l: "title_abstract_loop L items (excl @ labels) (setitem counts reason count) rem1 G2
            = (Inr (excl', counts', rem'), G')"
      by (auto simp: seq_eq_Inr)
    have "rem1 = filter (\<lambda>row. fst row \<notin> set labels) rem"
      using drop_labels_eq_Inr [OF d] by simp
    then have "rem1 = filter (\<lambda>row. fst row \<notin> set (excl @ labels)) el"
      by (auto simp: Cons.prems(2) intro: filter_cong)
    from Cons.IH [OF l this] show ?thesis .
  qed
qed

lemma title_abstract_loop_all_fire:
  assumes "sample_ok L" "distinct (index rem)" "\<forall>item \<in> set items. 0 \<le> snd item"
    "values_sum items \<le> int (length rem)"
    "title_abstract_loop L items excl counts rem G = (Inr (excl', counts', rem'), G')"
  shows "int (length rem') = int (length rem) - values_sum items"
  using assms(2-)
proof (induction items arbitrary: excl counts rem G)
  case Nil
  then show ?case by (simp add: ret_def values_sum_def)
next
  case (Cons item items)
  obtain reason count where item: "item = (reason, count)" by (cases item)
  have c: "0 \<le> count" using Cons.prems(2) item by simp
  have rest: "0 \<le> values_sum items"
    using Cons.prems(2) unfolding values_sum_def by (intro sum_list_nonneg) auto
  have sum: "values_sum (item # items) = count + values_sum items"
    by (simp add: item values_sum_def)
  have fire: "int (length rem) \<ge> count"
    using Cons.prems(3) rest sum by linarith
  from sample_index_ok [OF assms(1) c fire Cons.prems(1), of G]
  obtain labels h' where
    s: "sample_index L rem count G = (Inr labels, G\<lparr>np_state := h'\<rparr>)"
    and len: "length labels = nat count" and dl: "distinct labels"
    and sub: "set labels \<subseteq> set (index rem)"
    by blast
  let ?rem1 = "filter (\<lambda>row. fst row \<notin> set labels) rem"
  have d: "drop_labels rem labels (G\<lparr>np_state := h'\<rparr>) = (Inr ?rem1, G\<lparr>np_state := h'\<rparr>)"
    by (rule drop_labels_ok [OF sub])
  have l: "title_abstract_loop L items (excl @ labels) (setitem counts reason count) ?rem1
      (G\<lparr>np_state := h'\<rparr>) = (Inr (excl', counts', rem'), G')"
    using Cons.prems(4) fire by (simp add: item seq_def s d)
  have "length ?rem1 + length labels = length rem"
    by (rule length_kept [OF Cons.prems(1) dl sub])
  with len c have len1: "int (length ?rem1) = int (length rem) - count"
    by linarith
  have "int (length rem') = int (length ?rem1) - values_sum items"
  proof (rule Cons.IH [OF _ _ _ l])
    show "distinct (index ?rem1)" by (rule distinct_index_filter [OF Cons.prems(1)])
    show "\<forall>item \<in> set items. 0 \<le> snd item" using Cons.prems(2) by simp
    show "values_sum items \<le> int (length ?rem1)"
      using Cons.prems(3) sum len1 by linarith
  qed
  with len1 sum show ?case by linarith
qed

lemma title_abstract_screening_Inr:
  assumes "title_abstract_screening L self G = (Inr (after, tex), G1)"
  obtains excl' rem' where
    "title_abstract_loop L (title_abstract_exclusions self) [] []
       (apply_inclusion_criteria (studies_df self)) G = (Inr (excl', tex, rem'), G1)"
    "after = filter (\<lambda>row. fst row \<notin> set excl') (apply_inclusion_criteria (studies_df self))"
proof -
  from assms obtain excl' counts' rem' G0 where
    l: "title_abstract_loop L (title_abstract_exclusions self) [] []
       (apply_inclusion_criteria (studies_df self)) G = (Inr (excl', counts', rem'), G0)"
    and d: "seq (drop_labels (apply_inclusion_criteria (studies_df self)) excl')
          (\<lambda>after_title_abstract. ret (after_title_abstract, counts')) G0
        = (Inr (after, tex), G1)"
    unfolding title_abstract_screening_def Let_def
    by (auto simp: seq_eq_Inr)
  from d obtain a where
    "drop_labels (apply_inclusion_criteria (studies_df self)) excl' G0 = (Inr a, G1)"
    "a = after" "counts' = tex"
    by (auto simp: seq_eq_Inr ret_def)
  with drop_labels_eq_Inr [of "apply_inclusion_criteria (studies_df self)" excl' G0 a G1] l that
  show thesis by auto
qed

lemma selection_table_sum:
  "values_sum selection_title_abstract_exclusions = 55"
  "\<forall>item \<in> set selection_title_abstract_exclusions. 0 \<le> snd item"
  by (simp_all add: values_sum_def selection_title_abstract_exclusions_def)

text \<open>With the table and the target of \<open>__init__\<close>, a flow reports fewer than 88 studies
  whenever fewer than 143 studies pass the inclusion criteria: 55 are excluded at title and
  abstract screening, and full-text screening adds none.\<close>

lemma flow_misses_target:
  assumes "sample_ok L" "distinct (index (studies_df self))"
    and ta: "title_abstract_exclusions self = selection_title_abstract_exclusions"
    and fi: "final_included self = 88"
    and el: "length (apply_inclusion_criteria (studies_df self)) < 143"
  shows "\<exists>d G'. generate_prisma_flow_data L self G = (Inr d, G')
           \<and> inclusion_final_synthesis d < 88"
proof -
  let ?el = "apply_inclusion_criteria (studies_df self)"
  have counts: "\<forall>item \<in> set (title_abstract_exclusions self). 0 \<le> snd item"
    unfolding ta by (rule selection_table_sum)
  have target: "0 \<le> final_included self" by (simp add: fi)
  obtain d G' where run: "generate_prisma_flow_data L self G = (Inr d, G')"
    using generate_prisma_flow_data_returns [OF assms(1,2) counts target] by blast
  from run obtain after tex G1 fin fex G2 where
    t: "title_abstract_screening L self G = (Inr (after, tex), G1)" and
    f: "full_text_screening L self after G1 = (Inr (fin, fex), G2)" and
    syn: "inclusion_final_synthesis d = int (length fin)"
    by (rule generate_prisma_flow_data_Inr)
  from t obtain excl' rem' where
    l: "title_abstract_loop L (title_abstract_exclusions self) [] [] ?el G
          = (Inr (excl', tex, rem'), G1)" and
    a: "after = filter (\<lambda>row. fst row \<notin> set excl') ?el"
    by (rule title_abstract_screening_Inr)
  have del: "distinct (index ?el)"
    unfolding apply_inclusion_criteria_def Let_def
    by (rule distinct_index_filter [OF assms(2)])
  have da: "distinct (index after)"
    unfolding a by (rule distinct_index_filter [OF del])
  have rem': "rem' = after"
    unfolding a by (rule title_abstract_loop_rows [OF l]) simp
  have short: "length after < 88"
  proof (cases "length ?el < 88")
    case True
    have "length after \<le> length ?el"
      unfolding a by (rule length_filter_le)
    with True show ?thesis by simp
  next
    case False
    then have "values_sum (title_abstract_exclusions self) \<le> int (length ?el)"
      by (simp add: ta selection_table_sum)
    from title_abstract_loop_all_fire [OF assms(1) del counts this l]
    have "int (length rem') = int (length ?el) - 55"
      by (simp add: ta selection_table_sum)
    with el show ?thesis by (simp add: rem')
  qed
  from full_text_screening_returns [OF assms(1) da target, of G1] f
  have m: "int (length fin) =
      min (int (length (filter (\<lambda>row. exclude_reason_of (snd row) = None) after)))
          (final_included self)"
    by auto
  have "length (filter (\<lambda>row. exclude_reason_of (snd row) = None) after) \<le> length after"
    by (rule length_filter_le)
  with short have "int (length (filter (\<lambda>row. exclude_reason_of (snd row) = None) after)) < 88"
    by linarith
  then have "int (length fin) < 88"
    unfolding m by (simp only: min_less_iff_disj simp_thms)
  with run syn show ?thesis by simp
qed

lemma seeded_flow_misses_target:
  assumes "randbelow_ok L" "sample_ok L"
  shows "\<exists>self G1. selection_init L seed_arg G = (Inr self, G1)
           \<and> (length (apply_inclusion_criteria (studies_df self)) < 143 \<longrightarrow>
                (\<exists>d G'. generate_prisma_flow_data L self G1 = (Inr d, G')
                   \<and> inclusion_final_synthesis d < 88))"
proof -
  obtain self G1 where
    i: "selection_init L seed_arg G = (Inr self, G1)"
    and ds: "distinct (index (studies_df self))" and fi: "final_included self = 88"
    and ta: "title_abstract_exclusions self = selection_title_abstract_exclusions"
    using selection_init_returns [OF assms(1)] by blast
  show ?thesis
    using i flow_misses_target [OF assms(2) ds ta fi] by blast
qed

subsection \<open>Runs with the same seed\<close>



subsection \<open>The kappa of the simulation and the kappa of the formula\<close>





subsection \<open>The target of the final synthesis\<close>

text \<open>
  Claim C4 fails where fewer studies pass the full-text checks than the target:
  \<open>full_text_screening\<close> samples the surplus away above the target and adds nothing below
  it (lemma \<open>full_text_screening_returns\<close>: it returns the smaller of the two numbers, and
  lemma \<open>seeded_flow_misses_target\<close>: for every seed the flow stays below 88 when fewer
  than 143 of the synthetic studies pass the inclusion criteria). With the target 88 and
  three studies assessed, of which two pass, the flow reports two studies in the final
  synthesis.
\<close>

theorem full_text_screening_below_target:
  "final_included (example_selection\<lparr>final_included := 88\<rparr>) = 88
   \<and> map_sum id (\<lambda>d. (full_text_assessed d, full_text_included d, inclusion_final_synthesis d))
       (fst (generate_prisma_flow_data counting_library
               (example_selection\<lparr>final_included := 88\<rparr>) \<lparr>py_state = 7, np_state = 0\<rparr>))
     = Inr (3, 2, 2)
   \<and> map_sum id (\<lambda>r. map fst (fst r))
       (fst (full_text_screening counting_library (example_selection\<lparr>final_included := 88\<rparr>)
               (DataFrame [example_study 1 100, example_study 2 20, example_study 3 300])
               \<lparr>py_state = 7, np_state = 0\<rparr>))
     = Inr [0, 2]"
  by code_simp

section \<open>The exclusion tables\<close>

text \<open>
  Claim C5. The counts of the title and abstract exclusion table sum to
  \<open>title_abstract_excluded = 60\<close> in prisma_study_methodology.py, whose last entry is
  commented "To reach 60 total". The table of prisma_study_selection.py lacks that entry
  and sums to 55, and the table of prisma_config.py sums to 61, each beside a total of 60.
\<close>

theorem title_abstract_exclusions_sums:
  "values_sum (methodology.title_abstract_exclusions (methodology_init seed_arg)) = 60
   \<and> methodology.title_abstract_excluded (methodology_init seed_arg) = 60
   \<and> values_sum selection_title_abstract_exclusions = 55
   \<and> values_sum STUDY_SELECTION_CONFIG_title_abstract_exclusions = 61
   \<and> map_of STUDY_SELECTION_CONFIG_target_numbers ''title_abstract_excluded'' = Some 60"
  by (simp add: values_sum_def methodology_init_def selection_title_abstract_exclusions_def
      STUDY_SELECTION_CONFIG_title_abstract_exclusions_def
      STUDY_SELECTION_CONFIG_target_numbers_def)

section \<open>Properties of the scripts that read and write tables\<close>









subsection \<open>What the handlers catch\<close>








end
